theory Spec2Isabelle
  imports Complex_Main
begin

section \<open>The objects of the MAX! Cube library, as the integration reads them\<close>

text \<open>
  The integration (\<^verbatim>\<open>custom_components/maxcube\<close>) is written in Python against the
  \<^verbatim>\<open>maxcube\<close> library, whose classes are not part of the repository. A library object
  is modelled by what the integration reads from it. Temperatures are Python floats on
  the half-degree grid of the gateway; they are modelled as real numbers, on which
  \<^verbatim>\<open>max\<close>, \<^verbatim>\<open>min\<close>, \<^verbatim>\<open><=\<close> and \<^verbatim>\<open>==\<close> agree with the float operations.
  A value that may be Python's \<^verbatim>\<open>None\<close> is an \<open>option\<close>.
\<close>

datatype max_device_mode =
    MAX_DEVICE_MODE_AUTOMATIC
  | MAX_DEVICE_MODE_MANUAL
  | MAX_DEVICE_MODE_VACATION
  | MAX_DEVICE_MODE_BOOST

text \<open>
  An attribute that the source probes with \<^verbatim>\<open>hasattr\<close> or \<^verbatim>\<open>getattr\<close> may be missing
  from the object altogether.
\<close>

datatype 'a py_attr = Absent | Present 'a

text \<open>
  A device of the library. The capability checks \<^verbatim>\<open>is_thermostat()\<close>,
  \<^verbatim>\<open>is_wallthermostat()\<close> and \<^verbatim>\<open>is_windowshutter()\<close> are methods of the library; the
  record holds what they return. The mode and the temperatures may be \<^verbatim>\<open>None\<close>: the
  source has a branch for an unknown mode, tests \<^verbatim>\<open>target_temperature\<close> for \<^verbatim>\<open>None\<close> and
  replaces \<^verbatim>\<open>min_temperature\<close> and \<^verbatim>\<open>max_temperature\<close> by a default when they are missing
  or falsy; the comfort and eco temperature are the other two configured temperatures
  of a device. The valve position, where the attribute exists, may be \<^verbatim>\<open>None\<close> too:
  \<^verbatim>\<open>hasattr\<close>, the test that the source makes before it compares the value, holds for
  an attribute whose value is \<^verbatim>\<open>None\<close>.
\<close>

record max_device =
  rf_address :: string
  serial :: string
  room_id :: "int option"
  is_thermostat :: bool
  is_wallthermostat :: bool
  is_windowshutter :: bool
  mode :: "max_device_mode option"
  target_temperature :: "real option"
  actual_temperature :: "real option"
  comfort_temperature :: "real option"
  eco_temperature :: "real option"
  min_temperature :: "real option py_attr"
  max_temperature :: "real option py_attr"
  valve_position :: "int option py_attr"
  battery :: "int option py_attr"
  is_open :: "bool option py_attr"

record max_room =
  room_ident :: int
  room_name :: string

text \<open>
  The cube object of the library. Its lookups are methods of the library and are taken
  as they are: \<^verbatim>\<open>device_by_rf\<close> and \<^verbatim>\<open>room_by_id\<close> return an object or \<^verbatim>\<open>None\<close>, and
  \<^verbatim>\<open>devices_by_room\<close> returns a list. A device or room object is truthy, so the source's
  \<^verbatim>\<open>if updated_device:\<close> and \<^verbatim>\<open>if room:\<close> test for \<^verbatim>\<open>None\<close>.
\<close>

record max_cube =
  devices :: "max_device list"
  device_by_rf :: "string \<Rightarrow> max_device option"
  room_by_id :: "int option \<Rightarrow> max_room option"
  devices_by_room :: "max_room \<Rightarrow> max_device list"
  use_persistent_connection :: bool

section \<open>climate.py: constants\<close>

definition OFF_TEMPERATURE :: real where
  "OFF_TEMPERATURE = 9 / 2"

definition ON_TEMPERATURE :: real where
  "ON_TEMPERATURE = 61 / 2"

definition MIN_TEMPERATURE :: real where
  "MIN_TEMPERATURE = 5"

definition MAX_TEMPERATURE :: real where
  "MAX_TEMPERATURE = 30"

datatype hvac_mode =
    HVACMode_OFF
  | HVACMode_HEAT
  | HVACMode_COOL
  | HVACMode_HEAT_COOL
  | HVACMode_AUTO
  | HVACMode_DRY
  | HVACMode_FAN_ONLY

datatype hvac_action = HVACAction_OFF | HVACAction_HEATING | HVACAction_IDLE

definition PRESET_AWAY :: string where
  "PRESET_AWAY = ''away''"

definition PRESET_BOOST :: string where
  "PRESET_BOOST = ''boost''"

definition PRESET_COMFORT :: string where
  "PRESET_COMFORT = ''comfort''"

definition PRESET_ECO :: string where
  "PRESET_ECO = ''eco''"

definition PRESET_ON :: string where
  "PRESET_ON = ''on''"

definition ATTR_VALVE_POSITION :: string where
  "ATTR_VALVE_POSITION = ''valve_position''"

text \<open>The dictionary \<^verbatim>\<open>MODE_TO_HVAC_MODE\<close>; \<^verbatim>\<open>mode in MODE_TO_HVAC_MODE\<close> is its domain.\<close>

fun MODE_TO_HVAC_MODE :: "max_device_mode \<Rightarrow> hvac_mode option" where
  "MODE_TO_HVAC_MODE MAX_DEVICE_MODE_AUTOMATIC = Some HVACMode_AUTO"
| "MODE_TO_HVAC_MODE MAX_DEVICE_MODE_MANUAL = Some HVACMode_HEAT"
| "MODE_TO_HVAC_MODE MAX_DEVICE_MODE_VACATION = Some HVACMode_AUTO"
| "MODE_TO_HVAC_MODE MAX_DEVICE_MODE_BOOST = Some HVACMode_AUTO"

section \<open>Exceptions\<close>

text \<open>
  The exception classes that the source names or that its operations raise, each with
  its message; \<^verbatim>\<open>raise ... from err\<close> keeps the cause. \<^verbatim>\<open>OtherException\<close> stands for any
  other subclass of \<^verbatim>\<open>Exception\<close>. The exits of the interpreter that derive from
  \<^verbatim>\<open>BaseException\<close> alone are not exceptions in this sense and are not modelled.
\<close>

datatype py_exception =
    TimeoutError string
  | OSError string
  | TypeError string
  | OtherException string
  | HomeAssistantError string py_exception
  | UpdateFailed string py_exception

fun exception_str :: "py_exception \<Rightarrow> string" where
  "exception_str (TimeoutError m) = m"
| "exception_str (OSError m) = m"
| "exception_str (TypeError m) = m"
| "exception_str (OtherException m) = m"
| "exception_str (HomeAssistantError m c) = m"
| "exception_str (UpdateFailed m c) = m"

section \<open>climate.py: the climate entity\<close>

text \<open>
  \<^verbatim>\<open>MaxCubeClimate\<close>: the cached device \<^verbatim>\<open>self._device\<close> and the attributes that
  \<^verbatim>\<open>_update_attrs\<close> sets, which are what the host reads as the entity's state.
  \<^verbatim>\<open>self._cube\<close> is the coordinator's one cube object; the functions below take it as
  an argument.
\<close>

record climate_entity =
  device :: max_device
  attr_unique_id :: string
  attr_hvac_mode :: "hvac_mode option"
  attr_hvac_action :: hvac_action
  attr_current_temperature :: "real option"
  attr_target_temperature :: "real option"
  attr_preset_mode :: "string option"
  attr_extra_state_attributes :: "(string \<times> int option) list"

text \<open>
  \<^verbatim>\<open>getattr(device, name, default) or default\<close>: the default stands in for a missing
  attribute and for a falsy one (\<^verbatim>\<open>None\<close> or zero).
\<close>

fun getattr_or :: "real option py_attr \<Rightarrow> real \<Rightarrow> real" where
  "getattr_or Absent d = d"
| "getattr_or (Present None) d = d"
| "getattr_or (Present (Some x)) d = (if x = 0 then d else x)"

definition min_temp :: "climate_entity \<Rightarrow> real" where
  "min_temp e =
     (let min_t = getattr_or (min_temperature (device e)) MIN_TEMPERATURE
      in max min_t MIN_TEMPERATURE)"

definition max_temp :: "climate_entity \<Rightarrow> real" where
  "max_temp e =
     (let max_t = getattr_or (max_temperature (device e)) MAX_TEMPERATURE
      in min max_t MAX_TEMPERATURE)"

text \<open>
  \<^verbatim>\<open>_get_current_preset\<close>. Python's \<^verbatim>\<open>==\<close> on two optional floats is equality of the
  options: \<^verbatim>\<open>None == None\<close> holds, and \<^verbatim>\<open>None\<close> equals no number.
\<close>

definition get_current_preset :: "climate_entity \<Rightarrow> string option" where
  "get_current_preset e =
     (let m = mode (device e);
          target_temp = target_temperature (device e);
          comfort_temp = comfort_temperature (device e);
          eco_temp = eco_temperature (device e)
      in if m = Some MAX_DEVICE_MODE_BOOST then Some PRESET_BOOST
         else if m = Some MAX_DEVICE_MODE_VACATION then Some PRESET_AWAY
         else if m = Some MAX_DEVICE_MODE_MANUAL then
           (if target_temp = comfort_temp then Some PRESET_COMFORT
            else if target_temp = eco_temp then Some PRESET_ECO
            else if target_temp = Some ON_TEMPERATURE then Some PRESET_ON
            else None)
         else None)"

text \<open>
  The first part of \<^verbatim>\<open>_update_attrs\<close>: the HVAC mode of a device mode and target.
\<close>

definition hvac_mode_of :: "max_device \<Rightarrow> hvac_mode option" where
  "hvac_mode_of d =
     (let m = mode d; target_temp = target_temperature d
      in if m = Some MAX_DEVICE_MODE_MANUAL \<and> target_temp = Some OFF_TEMPERATURE
           then Some HVACMode_OFF
         else (case m of
                 None \<Rightarrow> None
               | Some k \<Rightarrow>
                   (case MODE_TO_HVAC_MODE k of
                      None \<Rightarrow> None
                    | Some h \<Rightarrow>
                        if h = HVACMode_HEAT \<and> target_temp = Some OFF_TEMPERATURE
                        then Some HVACMode_OFF else Some h)))"

text \<open>
  Python's \<^verbatim>\<open>a > b\<close> with \<^verbatim>\<open>None\<close> for \<^verbatim>\<open>a\<close> and an integer for \<^verbatim>\<open>b\<close> raises.
\<close>

definition valve_type_error :: py_exception where
  "valve_type_error = TypeError ''> not supported between NoneType and int''"

text \<open>
  The loop of \<^verbatim>\<open>_update_attrs\<close> over the devices of a wall thermostat's room: the
  largest valve position of the room's thermostats, starting from \<open>valve\<close>. The test
  is \<^verbatim>\<open>dev.is_thermostat() and hasattr(dev, 'valve_position') and
  dev.valve_position > valve\<close>; its last part raises for a valve position of \<^verbatim>\<open>None\<close>.
\<close>

fun room_valve :: "max_device list \<Rightarrow> int \<Rightarrow> py_exception + int" where
  "room_valve [] valve = Inr valve"
| "room_valve (dev # devs) valve =
     (if is_thermostat dev then
        (case valve_position dev of
           Absent \<Rightarrow> room_valve devs valve
         | Present None \<Rightarrow> Inl valve_type_error
         | Present (Some v) \<Rightarrow>
             if v > valve then room_valve devs v else room_valve devs valve)
      else room_valve devs valve)"

text \<open>
  The value of \<^verbatim>\<open>valve\<close> after the first two branches of \<^verbatim>\<open>_update_attrs\<close>: for a
  thermostat the attribute as it is, \<^verbatim>\<open>None\<close> included.
\<close>

definition valve_of :: "max_cube \<Rightarrow> max_device \<Rightarrow> py_exception + int option" where
  "valve_of cube d =
     (case (is_thermostat d, valve_position d) of
        (True, Present v) \<Rightarrow> Inr v
      | _ \<Rightarrow>
        if is_wallthermostat d then
          (case room_by_id cube (room_id d) of
             Some room \<Rightarrow>
               (case room_valve (devices_by_room cube room) 0 of
                  Inl err \<Rightarrow> Inl err
                | Inr v \<Rightarrow> Inr (Some v))
           | None \<Rightarrow> Inr (Some 0))
        else Inr (Some 0))"

text \<open>
  The HVAC action: \<^verbatim>\<open>valve > 0\<close> is evaluated only when the mode is not off, and it
  raises for a valve of \<^verbatim>\<open>None\<close>.
\<close>

definition hvac_action_of :: "hvac_mode option \<Rightarrow> int option \<Rightarrow> py_exception + hvac_action"
  where
  "hvac_action_of hvac valve =
     (if hvac = Some HVACMode_OFF then Inr HVACAction_OFF
      else (case valve of
              None \<Rightarrow> Inl valve_type_error
            | Some v \<Rightarrow> Inr (if v > 0 then HVACAction_HEATING else HVACAction_IDLE)))"

text \<open>
  \<^verbatim>\<open>_update_attrs\<close>. The method assigns the attributes of the entity one after the
  other: first \<^verbatim>\<open>_attr_hvac_mode\<close>, then, after the valve has been read, the HVAC
  action and the rest. The result is the entity as the method leaves it and the
  exception that it raised, if any: when the valve raises, the HVAC mode has been
  assigned and the other attributes have not. The target temperature is compared with
  the entity's own \<^verbatim>\<open>min_temp\<close> and \<^verbatim>\<open>max_temp\<close>, which read \<^verbatim>\<open>self._device\<close> too.
\<close>

definition update_attrs ::
  "max_cube \<Rightarrow> climate_entity \<Rightarrow> climate_entity \<times> py_exception option" where
  "update_attrs cube e =
     (let d = device e;
          hvac = hvac_mode_of d;
          e1 = e\<lparr>attr_hvac_mode := hvac\<rparr>
      in case valve_of cube d of
           Inl err \<Rightarrow> (e1, Some err)
         | Inr valve \<Rightarrow>
             (case hvac_action_of hvac valve of
                Inl err \<Rightarrow> (e1, Some err)
              | Inr action \<Rightarrow>
                  (let target =
                         (if hvac \<noteq> Some HVACMode_OFF then
                            (case target_temperature d of
                               Some temp \<Rightarrow>
                                 if min_temp e \<le> temp \<and> temp \<le> max_temp e then Some temp
                                 else if hvac = Some HVACMode_AUTO then None
                                 else comfort_temperature d
                             | None \<Rightarrow>
                                 if hvac = Some HVACMode_AUTO then None
                                 else comfort_temperature d)
                          else None);
                       extra_attrs =
                         (case (is_thermostat d, valve_position d) of
                            (True, Present v) \<Rightarrow> [(ATTR_VALVE_POSITION, v)]
                          | _ \<Rightarrow> [])
                   in (e1\<lparr>attr_hvac_action := action,
                           attr_current_temperature := actual_temperature d,
                           attr_target_temperature := target,
                           attr_preset_mode := get_current_preset e,
                           attr_extra_state_attributes := extra_attrs\<rparr>,
                       None))))"

text \<open>
  What the host reads as the entity's state: the attributes of \<^verbatim>\<open>_update_attrs\<close>.
\<close>

definition climate_state ::
  "climate_entity \<Rightarrow>
     hvac_mode option \<times> hvac_action \<times> real option \<times> real option \<times> string option \<times>
     (string \<times> int option) list" where
  "climate_state e =
     (attr_hvac_mode e, attr_hvac_action e, attr_current_temperature e,
      attr_target_temperature e, attr_preset_mode e, attr_extra_state_attributes e)"

text \<open>
  How a handler ends: it writes the state to the host (\<^verbatim>\<open>async_write_ha_state\<close>), it
  logs a warning, or an exception leaves it before either.
\<close>

datatype handler_effect = WriteHaState | LogWarning | Raises py_exception

text \<open>
  \<^verbatim>\<open>MaxCubeClimate._handle_coordinator_update\<close>. \<^verbatim>\<open>self.coordinator.data\<close> is the cube
  that the refresh returned, and it is the object that \<^verbatim>\<open>self._cube\<close> names
  (\<^verbatim>\<open>_async_update_data\<close> returns \<^verbatim>\<open>self.cube\<close>): one argument stands for both. The
  device is assigned before \<^verbatim>\<open>_update_attrs\<close> is called, and the state is written after
  it has returned.
\<close>

definition handle_coordinator_update ::
  "max_cube \<Rightarrow> climate_entity \<Rightarrow> climate_entity \<times> handler_effect" where
  "handle_coordinator_update coordinator_data e =
     (case device_by_rf coordinator_data (rf_address (device e)) of
        Some updated_device \<Rightarrow>
          (case update_attrs coordinator_data (e\<lparr>device := updated_device\<rparr>) of
             (e', None) \<Rightarrow> (e', WriteHaState)
           | (e', Some err) \<Rightarrow> (e', Raises err))
      | None \<Rightarrow> (e, LogWarning))"

text \<open>
  \<^verbatim>\<open>MaxCubeClimate.__init__\<close>: the device is stored and \<^verbatim>\<open>_update_attrs\<close> is called.
  \<open>climate_init\<close> is the object as the constructor leaves it, and \<open>climate_init_raised\<close>
  the exception with which the constructor ends, if any; an entity exists only when
  there is none.
\<close>

definition new_climate :: "max_device \<Rightarrow> climate_entity" where
  "new_climate d =
     \<lparr>device = d, attr_unique_id = serial d, attr_hvac_mode = None,
      attr_hvac_action = HVACAction_IDLE, attr_current_temperature = None,
      attr_target_temperature = None, attr_preset_mode = None,
      attr_extra_state_attributes = []\<rparr>"

definition climate_init :: "max_cube \<Rightarrow> max_device \<Rightarrow> climate_entity" where
  "climate_init cube d = fst (update_attrs cube (new_climate d))"

definition climate_init_raised :: "max_cube \<Rightarrow> max_device \<Rightarrow> py_exception option" where
  "climate_init_raised cube d = snd (update_attrs cube (new_climate d))"

section \<open>binary_sensor.py\<close>

text \<open>
  \<^verbatim>\<open>MaxCubeBinarySensorBase\<close>, the base of \<^verbatim>\<open>MaxCubeShutter\<close> and \<^verbatim>\<open>MaxCubeBattery\<close>; the
  two differ in \<^verbatim>\<open>is_on\<close> and in the key of their description.
\<close>

record binary_sensor =
  sensor_device :: max_device
  sensor_unique_id :: string

definition sensor_handle_coordinator_update ::
  "max_cube \<Rightarrow> binary_sensor \<Rightarrow> binary_sensor \<times> handler_effect" where
  "sensor_handle_coordinator_update coordinator_data s =
     (case device_by_rf coordinator_data (rf_address (sensor_device s)) of
        Some updated_device \<Rightarrow> (s\<lparr>sensor_device := updated_device\<rparr>, WriteHaState)
      | None \<Rightarrow> (s, LogWarning))"

text \<open>
  \<^verbatim>\<open>is_on\<close> of the two sensors. The result is \<^verbatim>\<open>bool | None\<close>; \<^verbatim>\<open>self._device\<close> is a
  device object, which is truthy, so the test that remains is \<^verbatim>\<open>hasattr\<close>.
  \<^verbatim>\<open>self._device.battery == 1\<close> is false for \<^verbatim>\<open>None\<close>.
\<close>

definition shutter_is_on :: "binary_sensor \<Rightarrow> bool option" where
  "shutter_is_on s =
     (case is_open (sensor_device s) of
        Present v \<Rightarrow> v
      | Absent \<Rightarrow> None)"

definition battery_is_on :: "binary_sensor \<Rightarrow> bool option" where
  "battery_is_on s =
     (case battery (sensor_device s) of
        Present b \<Rightarrow> Some (b = Some 1)
      | Absent \<Rightarrow> None)"

section \<open>climate.py: the commands\<close>

text \<open>
  The two calls that the command path makes outside the repository:
  \<^verbatim>\<open>cube.set_temperature_mode\<close> of the library, run in the executor, and
  \<^verbatim>\<open>coordinator.async_request_refresh\<close> of the host. Each returns (\<open>None\<close>) or raises. The
  library's call is passed \<^verbatim>\<open>self._device\<close>, the object itself, and may assign to its
  attributes: its result is the exception, if any, together with the device as the
  call leaves it. The refresh that was requested reaches the entity through
  \<^verbatim>\<open>_handle_coordinator_update\<close>.
\<close>

record cube_io =
  set_temperature_mode ::
    "max_device \<Rightarrow> real option \<Rightarrow> max_device_mode option \<Rightarrow>
       py_exception option \<times> max_device"
  async_request_refresh :: "py_exception option"

datatype call =
    SetTemperatureMode max_device "real option" "max_device_mode option"
  | RequestRefresh

text \<open>
  What a command method leaves behind: the exception it raised, if any, the entity as
  it is afterwards, and the calls it made, in order. The method assigns nothing on the
  entity; \<^verbatim>\<open>self._device\<close> names the same object as before, whose attributes are as the
  library's call left them.
\<close>

record command_result =
  raised :: "py_exception option"
  entity_after :: climate_entity
  calls :: "call list"

text \<open>
  The two \<^verbatim>\<open>except\<close> clauses of \<^verbatim>\<open>_async_set_temperature_mode\<close>: the first catches
  \<^verbatim>\<open>TimeoutError\<close> and \<^verbatim>\<open>OSError\<close>, the second every other \<^verbatim>\<open>Exception\<close>.
\<close>

fun command_error :: "py_exception \<Rightarrow> py_exception" where
  "command_error (TimeoutError m) =
     HomeAssistantError (''Failed to set mode/temperature: '' @ m) (TimeoutError m)"
| "command_error (OSError m) =
     HomeAssistantError (''Failed to set mode/temperature: '' @ m) (OSError m)"
| "command_error err =
     HomeAssistantError
       (''Unexpected error setting mode/temperature: '' @ exception_str err) err"

definition async_set_temperature_mode ::
  "cube_io \<Rightarrow> climate_entity \<Rightarrow> real option \<Rightarrow> max_device_mode option \<Rightarrow> command_result"
  where
  "async_set_temperature_mode io e temperature m =
     (case set_temperature_mode io (device e) temperature m of
        (Some err, d') \<Rightarrow>
          \<lparr>raised = Some (command_error err), entity_after = e\<lparr>device := d'\<rparr>,
           calls = [SetTemperatureMode (device e) temperature m]\<rparr>
      | (None, d') \<Rightarrow>
          (case async_request_refresh io of
             Some err \<Rightarrow>
               \<lparr>raised = Some (command_error err), entity_after = e\<lparr>device := d'\<rparr>,
                calls = [SetTemperatureMode (device e) temperature m, RequestRefresh]\<rparr>
           | None \<Rightarrow>
               \<lparr>raised = None, entity_after = e\<lparr>device := d'\<rparr>,
                calls = [SetTemperatureMode (device e) temperature m, RequestRefresh]\<rparr>))"

text \<open>A method that returns without a call, and one that raises before any call.\<close>

definition nothing_sent :: "climate_entity \<Rightarrow> command_result" where
  "nothing_sent e = \<lparr>raised = None, entity_after = e, calls = []\<rparr>"

definition raises :: "py_exception \<Rightarrow> climate_entity \<Rightarrow> command_result" where
  "raises err e = \<lparr>raised = Some err, entity_after = e, calls = []\<rparr>"

text \<open>
  \<^verbatim>\<open>async_set_hvac_mode\<close>. \<^verbatim>\<open>self.target_temperature\<close> is the attribute that
  \<^verbatim>\<open>_update_attrs\<close> set. In the \<^verbatim>\<open>HEAT\<close> branch \<^verbatim>\<open>max(temp, self.min_temp)\<close> compares
  \<^verbatim>\<open>temp\<close> with a float, which raises \<^verbatim>\<open>TypeError\<close> when \<^verbatim>\<open>temp\<close> is \<^verbatim>\<open>None\<close>.
\<close>

definition async_set_hvac_mode ::
  "cube_io \<Rightarrow> climate_entity \<Rightarrow> hvac_mode \<Rightarrow> command_result" where
  "async_set_hvac_mode io e hvac =
     (if hvac = HVACMode_OFF then
        async_set_temperature_mode io e (Some OFF_TEMPERATURE) (Some MAX_DEVICE_MODE_MANUAL)
      else if hvac = HVACMode_HEAT then
        (let current_target = attr_target_temperature e;
             temp =
               (case current_target of
                  Some t \<Rightarrow> if t > OFF_TEMPERATURE then Some t
                            else comfort_temperature (device e)
                | None \<Rightarrow> comfort_temperature (device e))
         in case temp of
              None \<Rightarrow>
                raises (TypeError ''> not supported between float and NoneType'') e
            | Some t \<Rightarrow>
                async_set_temperature_mode io e (Some (max t (min_temp e)))
                  (Some MAX_DEVICE_MODE_MANUAL))
      else if hvac = HVACMode_AUTO then
        async_set_temperature_mode io e None (Some MAX_DEVICE_MODE_AUTOMATIC)
      else nothing_sent e)"

definition async_set_preset_mode ::
  "cube_io \<Rightarrow> climate_entity \<Rightarrow> string \<Rightarrow> command_result" where
  "async_set_preset_mode io e preset_mode =
     (if preset_mode = PRESET_BOOST then
        async_set_temperature_mode io e None (Some MAX_DEVICE_MODE_BOOST)
      else if preset_mode = PRESET_AWAY then
        async_set_temperature_mode io e None (Some MAX_DEVICE_MODE_VACATION)
      else if preset_mode = PRESET_COMFORT then
        async_set_temperature_mode io e (comfort_temperature (device e))
          (Some MAX_DEVICE_MODE_MANUAL)
      else if preset_mode = PRESET_ECO then
        async_set_temperature_mode io e (eco_temperature (device e))
          (Some MAX_DEVICE_MODE_MANUAL)
      else if preset_mode = PRESET_ON then
        async_set_temperature_mode io e (Some ON_TEMPERATURE) (Some MAX_DEVICE_MODE_MANUAL)
      else nothing_sent e)"

text \<open>
  \<^verbatim>\<open>async_set_temperature\<close>; the argument is \<^verbatim>\<open>kwargs.get(ATTR_TEMPERATURE)\<close>.
\<close>

definition async_set_temperature ::
  "cube_io \<Rightarrow> climate_entity \<Rightarrow> real option \<Rightarrow> command_result" where
  "async_set_temperature io e temperature =
     (case temperature of
        None \<Rightarrow> nothing_sent e
      | Some temp \<Rightarrow>
          async_set_temperature_mode io e (Some (max (min_temp e) (min (max_temp e) temp)))
            (Some MAX_DEVICE_MODE_MANUAL))"

text \<open>The temperature and mode of each command that was passed to the cube.\<close>

fun commands_sent :: "call list \<Rightarrow> (real option \<times> max_device_mode option) list" where
  "commands_sent [] = []"
| "commands_sent (SetTemperatureMode d t m # cs) = (t, m) # commands_sent cs"
| "commands_sent (RequestRefresh # cs) = commands_sent cs"

section \<open>__init__.py: the coordinator\<close>

text \<open>
  A \<^verbatim>\<open>timedelta\<close> is a duration with a resolution of one microsecond, and two of them
  compare as durations; it is modelled by its number of microseconds.
\<close>

type_synonym timedelta = int

definition timedelta_seconds :: "int \<Rightarrow> timedelta" where
  "timedelta_seconds s = s * 1000000"

definition DEFAULT_SCAN_INTERVAL :: timedelta where
  "DEFAULT_SCAN_INTERVAL = timedelta_seconds 30"

text \<open>
  \<^verbatim>\<open>MaxCubeDataUpdateCoordinator\<close>. \<^verbatim>\<open>snapshot\<close> is the \<^verbatim>\<open>data\<close> attribute and
  \<^verbatim>\<open>last_update_success\<close> the flag of the host's \<^verbatim>\<open>DataUpdateCoordinator\<close>, its base class.
\<close>

record coordinator =
  cube :: max_cube
  host :: string
  update_interval :: timedelta
  snapshot :: "max_cube option"
  last_update_success :: bool

text \<open>
  \<^verbatim>\<open>__init__\<close>; \<open>new_cube\<close> is the object that the library's constructor
  \<^verbatim>\<open>MaxCube(host, port, now=now)\<close> returned.
\<close>

definition coordinator_init :: "max_cube \<Rightarrow> string \<Rightarrow> timedelta \<Rightarrow> coordinator" where
  "coordinator_init new_cube h interval =
     \<lparr>cube = new_cube\<lparr>use_persistent_connection := (interval \<le> timedelta_seconds 300)\<rparr>,
      host = h, update_interval = interval, snapshot = None,
      last_update_success = True\<rparr>"

text \<open>
  \<^verbatim>\<open>_async_update_data\<close>. \<open>lib_update\<close> is \<^verbatim>\<open>self.cube.update\<close> of the library, run in the
  executor: it raises an exception, or it returns with the cube brought up to date.
  The lock that the method holds meanwhile is the subject of the session model below.
\<close>

definition async_update_data ::
  "(max_cube \<Rightarrow> py_exception + max_cube) \<Rightarrow> coordinator \<Rightarrow> py_exception + max_cube" where
  "async_update_data lib_update co =
     (case lib_update (cube co) of
        Inr updated \<Rightarrow> Inr updated
      | Inl err \<Rightarrow>
          (case err of
             TimeoutError m \<Rightarrow>
               Inl (UpdateFailed
                 (''Timeout communicating with MAX! Cube '' @ host co @ '': '' @
                  exception_str err) err)
           | _ \<Rightarrow>
               Inl (UpdateFailed
                 (''Error communicating with MAX! Cube '' @ host co @ '': '' @
                  exception_str err) err)))"

text \<open>
  Modelled from the spec: the refresh of the host's \<^verbatim>\<open>DataUpdateCoordinator\<close>, which
  calls \<^verbatim>\<open>_async_update_data\<close> and is not in the repository. A refresh that succeeds
  stores the returned cube as the coordinator's data; "a failed refresh leaves the
  previous Gateway snapshot in place".
\<close>

definition async_refresh ::
  "(max_cube \<Rightarrow> py_exception + max_cube) \<Rightarrow> coordinator \<Rightarrow> coordinator" where
  "async_refresh lib_update co =
     (case async_update_data lib_update co of
        Inr updated \<Rightarrow>
          co\<lparr>cube := updated, snapshot := Some updated, last_update_success := True\<rparr>
      | Inl err \<Rightarrow> co\<lparr>last_update_success := False\<rparr>)"

section \<open>The session operations and the update lock\<close>

text \<open>
  The two operations that use the cube's session are coroutines on the host's event
  loop. A refresh (\<^verbatim>\<open>_async_update_data\<close>) enters \<^verbatim>\<open>async with self._update_lock\<close> and
  then awaits \<^verbatim>\<open>cube.update\<close> in the executor; it leaves the lock when the job is done.
  A command (\<^verbatim>\<open>_async_set_temperature_mode\<close>) awaits \<^verbatim>\<open>cube.set_temperature_mode\<close> in the
  executor; the method takes no lock. While a coroutine awaits its job, the loop runs
  the others. A task is an operation with its progress: it has not started its job, its
  job is on the wire, or it is done.
\<close>

datatype session_op = Refresh | Command

datatype progress = Waiting | OnWire | Finished

record session_state =
  update_lock :: bool
  tasks :: "(session_op \<times> progress) list"

text \<open>
  The next step of one task, given whether the lock is held: the lock afterwards and
  the task afterwards, or \<open>None\<close> when the task cannot move (a refresh that waits for the
  lock, a task that is done).
\<close>

fun task_step ::
  "bool \<Rightarrow> session_op \<times> progress \<Rightarrow> (bool \<times> (session_op \<times> progress)) option" where
  "task_step locked (Refresh, Waiting) =
     (if locked then None else Some (True, (Refresh, OnWire)))"
| "task_step locked (Refresh, OnWire) = Some (False, (Refresh, Finished))"
| "task_step locked (Command, Waiting) = Some (locked, (Command, OnWire))"
| "task_step locked (Command, OnWire) = Some (locked, (Command, Finished))"
| "task_step locked (opn, Finished) = None"

definition step :: "nat \<Rightarrow> session_state \<Rightarrow> session_state option" where
  "step i s =
     (if i < length (tasks s) then
        (case task_step (update_lock s) (tasks s ! i) of
           None \<Rightarrow> None
         | Some (l, t) \<Rightarrow> Some \<lparr>update_lock = l, tasks = (tasks s)[i := t]\<rparr>)
      else None)"

text \<open>A schedule names the task that moves at each step.\<close>

fun run :: "nat list \<Rightarrow> session_state \<Rightarrow> session_state option" where
  "run [] s = Some s"
| "run (i # sched) s = (case step i s of None \<Rightarrow> None | Some s' \<Rightarrow> run sched s')"

definition on_wire :: "session_op \<times> progress \<Rightarrow> bool" where
  "on_wire t = (snd t = OnWire)"

definition outstanding :: "session_state \<Rightarrow> nat" where
  "outstanding s = length (filter on_wire (tasks s))"

definition start :: "session_op list \<Rightarrow> session_state" where
  "start ops = \<lparr>update_lock = False, tasks = map (\<lambda>opn. (opn, Waiting)) ops\<rparr>"

text \<open>
  Two properties of a state: every task is a refresh, and the number of jobs on the wire
  is one when the lock is held and zero when it is free.
\<close>

definition refresh_only :: "session_state \<Rightarrow> bool" where
  "refresh_only s = list_all (\<lambda>t. fst t = Refresh) (tasks s)"

definition lock_counts :: "session_state \<Rightarrow> bool" where
  "lock_counts s = (outstanding s = (if update_lock s then 1 else 0))"

section \<open>Example objects\<close>

text \<open>
  A radiator thermostat with the gateway's factory limits (4.5 and 30.5 degrees), in
  manual mode at 21 degrees, and variants of it; a cube without rooms; a window shutter;
  and a library whose calls return.
\<close>

definition factory_thermostat :: max_device where
  "factory_thermostat =
     \<lparr>rf_address = ''1234AB'', serial = ''KEQ0000001'', room_id = Some 1,
      is_thermostat = True, is_wallthermostat = False, is_windowshutter = False,
      mode = Some MAX_DEVICE_MODE_MANUAL, target_temperature = Some 21,
      actual_temperature = Some 20, comfort_temperature = Some 21,
      eco_temperature = Some 17, min_temperature = Present (Some (9 / 2)),
      max_temperature = Present (Some (61 / 2)), valve_position = Present (Some 40),
      battery = Present (Some 0), is_open = Absent\<rparr>"

text \<open>The same thermostat with its lower limit configured to 30.5 degrees.\<close>

definition min_on_thermostat :: max_device where
  "min_on_thermostat = factory_thermostat\<lparr>min_temperature := Present (Some (61 / 2))\<rparr>"

text \<open>Thermostats whose preset temperatures collide with the target of 30.5 degrees.\<close>

definition all_on_thermostat :: max_device where
  "all_on_thermostat =
     factory_thermostat\<lparr>target_temperature := Some (61 / 2),
       comfort_temperature := Some (61 / 2), eco_temperature := Some (61 / 2)\<rparr>"

definition eco_on_thermostat :: max_device where
  "eco_on_thermostat =
     factory_thermostat\<lparr>target_temperature := Some (61 / 2),
       eco_temperature := Some (61 / 2)\<rparr>"

definition shutter_device :: max_device where
  "shutter_device =
     \<lparr>rf_address = ''0A0B0C'', serial = ''KEQ0000009'', room_id = Some 1,
      is_thermostat = False, is_wallthermostat = False, is_windowshutter = True,
      mode = None, target_temperature = None, actual_temperature = None,
      comfort_temperature = None, eco_temperature = None, min_temperature = Absent,
      max_temperature = Absent, valve_position = Absent, battery = Present (Some 1),
      is_open = Present (Some True)\<rparr>"

definition no_rooms_cube :: max_cube where
  "no_rooms_cube =
     \<lparr>devices = [], device_by_rf = (\<lambda>rf. None), room_by_id = (\<lambda>i. None),
      devices_by_room = (\<lambda>r. []), use_persistent_connection = True\<rparr>"

definition io_ok :: cube_io where
  "io_ok = \<lparr>set_temperature_mode = (\<lambda>d t m. (None, d)), async_request_refresh = None\<rparr>"

text \<open>
  The state of the thermostat after a refresh, as another object with another serial,
  and the cube whose lookup finds it under the same radio address.
\<close>

definition refreshed_thermostat :: max_device where
  "refreshed_thermostat =
     factory_thermostat\<lparr>serial := ''KEQ0000002'', mode := Some MAX_DEVICE_MODE_AUTOMATIC,
       target_temperature := Some 17, actual_temperature := Some 19,
       valve_position := Present (Some 0)\<rparr>"

definition refreshed_cube :: max_cube where
  "refreshed_cube =
     \<lparr>devices = [refreshed_thermostat],
      device_by_rf = (\<lambda>rf. if rf = ''1234AB'' then Some refreshed_thermostat else None),
      room_by_id = (\<lambda>i. None), devices_by_room = (\<lambda>r. []),
      use_persistent_connection = True\<rparr>"

text \<open>
  A wall thermostat that is switched off (manual mode at 4.5 degrees) and whose
  configured temperatures are all \<^verbatim>\<open>None\<close>.
\<close>

definition unconfigured_thermostat :: max_device where
  "unconfigured_thermostat =
     \<lparr>rf_address = ''0D0E0F'', serial = ''KEQ0000005'', room_id = Some 1,
      is_thermostat = False, is_wallthermostat = True, is_windowshutter = False,
      mode = Some MAX_DEVICE_MODE_MANUAL, target_temperature = Some (9 / 2),
      actual_temperature = Some 19, comfort_temperature = None,
      eco_temperature = None, min_temperature = Present None,
      max_temperature = Present None, valve_position = Absent,
      battery = Present (Some 0), is_open = Absent\<rparr>"

text \<open>A library whose command times out.\<close>

definition io_timeout :: cube_io where
  "io_timeout =
     \<lparr>set_temperature_mode = (\<lambda>d t m. (Some (TimeoutError ''timed out''), d)),
      async_request_refresh = None\<rparr>"

text \<open>
  Three behaviours of the library's \<^verbatim>\<open>update\<close>, and a coordinator whose last refresh
  returned the cube without rooms.
\<close>

definition lib_update_ok :: "max_cube \<Rightarrow> py_exception + max_cube" where
  "lib_update_ok c = Inr refreshed_cube"

definition lib_update_fails :: "max_cube \<Rightarrow> py_exception + max_cube" where
  "lib_update_fails c = Inl (OSError ''connection reset'')"

definition lib_update_times_out :: "max_cube \<Rightarrow> py_exception + max_cube" where
  "lib_update_times_out c = Inl (TimeoutError ''timed out'')"

definition running_coordinator :: coordinator where
  "running_coordinator =
     (coordinator_init no_rooms_cube ''cube.local'' DEFAULT_SCAN_INTERVAL)
       \<lparr>snapshot := Some no_rooms_cube\<rparr>"

text \<open>
  The refreshed thermostat as the library holds it before the gateway has reported its
  valve: the attribute exists and is \<^verbatim>\<open>None\<close>. The cube finds it under the same radio
  address.
\<close>

definition unreported_thermostat :: max_device where
  "unreported_thermostat = refreshed_thermostat\<lparr>valve_position := Present None\<rparr>"

definition unreported_cube :: max_cube where
  "unreported_cube =
     \<lparr>devices = [unreported_thermostat],
      device_by_rf = (\<lambda>rf. if rf = ''1234AB'' then Some unreported_thermostat else None),
      room_by_id = (\<lambda>i. None), devices_by_room = (\<lambda>r. []),
      use_persistent_connection = True\<rparr>"

text \<open>
  A library that, when the gateway acknowledges a command, assigns the mode and the
  target temperature of the command to the device object that it was passed, as the
  maxcube library does.
\<close>

definition io_assigning :: cube_io where
  "io_assigning =
     \<lparr>set_temperature_mode =
        (\<lambda>d t m. (None,
           d\<lparr>mode := (case m of None \<Rightarrow> mode d | Some k \<Rightarrow> Some k),
             target_temperature :=
               (case t of None \<Rightarrow> target_temperature d | Some x \<Rightarrow> Some x)\<rparr>)),
      async_request_refresh = None\<rparr>"

section \<open>Facts about the climate entity\<close>

lemma device_update_attrs: "device (fst (update_attrs c e)) = device e"
  by (simp add: update_attrs_def Let_def split: sum.splits)

lemma device_climate_init: "device (climate_init c d) = d"
  by (simp add: climate_init_def device_update_attrs new_climate_def)

lemma min_temp_ge: "MIN_TEMPERATURE \<le> min_temp e"
  by (simp add: min_temp_def)

lemma max_temp_le: "max_temp e \<le> MAX_TEMPERATURE"
  by (simp add: max_temp_def)

lemma set_temperature_mode_sent:
  "commands_sent (calls (async_set_temperature_mode io e t m)) = [(t, m)]"
  by (simp add: async_set_temperature_mode_def split: option.splits prod.splits)

lemma set_temperature_sent:
  "commands_sent (calls (async_set_temperature io e (Some t))) =
     [(Some (max (min_temp e) (min (max_temp e) t)), Some MAX_DEVICE_MODE_MANUAL)]"
  by (simp add: async_set_temperature_def set_temperature_mode_sent)

text \<open>
  Whether \<^verbatim>\<open>_update_attrs\<close> raises depends on the device and the cube only, and when it
  returns, so does the state that it leaves.
\<close>

lemma update_attrs_raised_by_device:
  "device e = device e' \<Longrightarrow> snd (update_attrs c e) = snd (update_attrs c e')"
  by (simp add: update_attrs_def Let_def split: sum.splits)

lemma climate_state_update_attrs:
  assumes same: "device e = device e'" and ok: "snd (update_attrs c e) = None"
  shows "climate_state (fst (update_attrs c e)) = climate_state (fst (update_attrs c e'))"
proof -
  have lo: "min_temp e = min_temp e'"
    using same by (simp add: min_temp_def)
  have hi: "max_temp e = max_temp e'"
    using same by (simp add: max_temp_def)
  have pre: "get_current_preset e = get_current_preset e'"
    using same by (simp add: get_current_preset_def)
  from ok obtain valve action where v: "valve_of c (device e) = Inr valve"
    and a: "hvac_action_of (hvac_mode_of (device e)) valve = Inr action"
    by (auto simp: update_attrs_def Let_def split: sum.splits)
  from same v a have v': "valve_of c (device e') = Inr valve"
    and a': "hvac_action_of (hvac_mode_of (device e')) valve = Inr action"
    by simp_all
  show ?thesis
    using same lo hi pre
    by (simp add: climate_state_def update_attrs_def Let_def v' a'
        cong: option.case_cong)
qed

text \<open>
  \<^verbatim>\<open>_update_attrs\<close> returns for a thermostat whose valve position is a number.
\<close>

lemma update_attrs_returns_for_thermostat:
  "is_thermostat (device e) \<Longrightarrow> valve_position (device e) = Present (Some v) \<Longrightarrow>
     snd (update_attrs c e) = None"
  by (simp add: update_attrs_def Let_def valve_of_def hvac_action_of_def)

lemma factory_entity_state:
  "climate_init_raised no_rooms_cube factory_thermostat = None \<and>
   climate_state (climate_init no_rooms_cube factory_thermostat) =
     (Some HVACMode_HEAT, HVACAction_HEATING, Some 20, Some 21, Some PRESET_COMFORT,
      [(ATTR_VALVE_POSITION, Some 40)])"
  by (simp add: climate_state_def climate_init_def climate_init_raised_def
      new_climate_def update_attrs_def Let_def hvac_mode_of_def valve_of_def
      hvac_action_of_def min_temp_def max_temp_def get_current_preset_def
      factory_thermostat_def OFF_TEMPERATURE_def MIN_TEMPERATURE_def
      MAX_TEMPERATURE_def)

lemma refreshed_entity_state:
  "climate_init_raised refreshed_cube refreshed_thermostat = None \<and>
   climate_state (climate_init refreshed_cube refreshed_thermostat) =
     (Some HVACMode_AUTO, HVACAction_IDLE, Some 19, Some 17, None,
      [(ATTR_VALVE_POSITION, Some 0)])"
  by (simp add: climate_state_def climate_init_def climate_init_raised_def
      new_climate_def update_attrs_def Let_def hvac_mode_of_def valve_of_def
      hvac_action_of_def min_temp_def max_temp_def get_current_preset_def
      refreshed_thermostat_def factory_thermostat_def OFF_TEMPERATURE_def
      MIN_TEMPERATURE_def MAX_TEMPERATURE_def)

lemma refreshed_cube_finds_thermostat:
  "device_by_rf refreshed_cube
     (rf_address (device (climate_init no_rooms_cube factory_thermostat))) =
     Some refreshed_thermostat"
  by (simp add: device_climate_init refreshed_cube_def factory_thermostat_def)

section \<open>The coordinator update\<close>

text \<open>
  What the handlers do where \<^verbatim>\<open>_update_attrs\<close> returns. When the lookup \<^verbatim>\<open>device_by_rf\<close>
  of the new snapshot finds a device and \<^verbatim>\<open>_update_attrs\<close> returns for it, the climate
  entity caches that device, its state is the one that a new entity for that device
  has, whatever the entity held before, and the state is written. A binary sensor
  caches the found device. When the lookup finds nothing, the entity is as before.
\<close>

lemma handler_completes_with_latest_state:
  assumes look: "device_by_rf snap (rf_address (device e)) = Some d"
    and ok: "climate_init_raised snap d = None"
  shows "snd (handle_coordinator_update snap e) = WriteHaState \<and>
    device (fst (handle_coordinator_update snap e)) = d \<and>
    climate_state (fst (handle_coordinator_update snap e)) =
      climate_state (climate_init snap d)"
proof -
  have dev: "device (e\<lparr>device := d\<rparr>) = device (new_climate d)"
    by (simp add: new_climate_def)
  have ret: "snd (update_attrs snap (e\<lparr>device := d\<rparr>)) = None"
    using ok update_attrs_raised_by_device [OF dev, of snap]
    by (simp add: climate_init_raised_def)
  have st: "climate_state (fst (update_attrs snap (e\<lparr>device := d\<rparr>))) =
      climate_state (climate_init snap d)"
    unfolding climate_init_def by (rule climate_state_update_attrs [OF dev ret])
  have d: "device (fst (update_attrs snap (e\<lparr>device := d\<rparr>))) = d"
    by (simp add: device_update_attrs)
  obtain e' where pair: "update_attrs snap (e\<lparr>device := d\<rparr>) = (e', None)"
    using ret by (cases "update_attrs snap (e\<lparr>device := d\<rparr>)") simp
  from look pair st d show ?thesis
    by (simp add: handle_coordinator_update_def)
qed

lemma handler_keeps_entity_when_not_found:
  "device_by_rf snap (rf_address (device e)) = None \<Longrightarrow>
     handle_coordinator_update snap e = (e, LogWarning)"
  by (simp add: handle_coordinator_update_def)

lemma sensor_handler_takes_found_device:
  "device_by_rf snap (rf_address (sensor_device s)) = Some d \<Longrightarrow>
     sensor_handle_coordinator_update snap s = (s\<lparr>sensor_device := d\<rparr>, WriteHaState)"
  by (simp add: sensor_handle_coordinator_update_def)

lemma sensor_handler_keeps_entity_when_not_found:
  "device_by_rf snap (rf_address (sensor_device s)) = None \<Longrightarrow>
     sensor_handle_coordinator_update snap s = (s, LogWarning)"
  by (simp add: sensor_handle_coordinator_update_def)

text \<open>
  Claim C1. The claim is that after a coordinator update whose snapshot holds a device
  under the entity's radio address, the entity holds that device and every state
  attribute is recomputed from it. An entity built for the factory thermostat (manual
  mode at 21 degrees, heating) receives a snapshot in which that address belongs to a
  thermostat in automatic mode at 17 degrees whose \<^verbatim>\<open>valve_position\<close> is \<^verbatim>\<open>None\<close>. The
  handler assigns the device, \<^verbatim>\<open>_update_attrs\<close> assigns the HVAC mode, and \<^verbatim>\<open>valve > 0\<close>
  raises \<^verbatim>\<open>TypeError\<close>: the entity is left with the new device and the new mode beside
  the action, temperatures, preset and valve of the old snapshot, and the state is
  not written.
\<close>

theorem coordinator_update_raises_on_valve_none:
  "device_by_rf unreported_cube
     (rf_address (device (climate_init no_rooms_cube factory_thermostat))) =
     Some unreported_thermostat \<and>
   climate_state (climate_init no_rooms_cube factory_thermostat) =
     (Some HVACMode_HEAT, HVACAction_HEATING, Some 20, Some 21, Some PRESET_COMFORT,
      [(ATTR_VALVE_POSITION, Some 40)]) \<and>
   snd (handle_coordinator_update unreported_cube
          (climate_init no_rooms_cube factory_thermostat)) = Raises valve_type_error \<and>
   device
     (fst (handle_coordinator_update unreported_cube
        (climate_init no_rooms_cube factory_thermostat))) = unreported_thermostat \<and>
   mode unreported_thermostat = Some MAX_DEVICE_MODE_AUTOMATIC \<and>
   target_temperature unreported_thermostat = Some 17 \<and>
   climate_state
     (fst (handle_coordinator_update unreported_cube
        (climate_init no_rooms_cube factory_thermostat))) =
     (Some HVACMode_AUTO, HVACAction_HEATING, Some 20, Some 21, Some PRESET_COMFORT,
      [(ATTR_VALVE_POSITION, Some 40)])"
proof -
  let ?e = "climate_init no_rooms_cube factory_thermostat"
  have look: "device_by_rf unreported_cube (rf_address (device ?e)) =
      Some unreported_thermostat"
    by (simp add: device_climate_init unreported_cube_def factory_thermostat_def)
  have before: "climate_state ?e =
      (Some HVACMode_HEAT, HVACAction_HEATING, Some 20, Some 21, Some PRESET_COMFORT,
       [(ATTR_VALVE_POSITION, Some 40)])"
    using factory_entity_state by simp
  have upd: "update_attrs unreported_cube (?e\<lparr>device := unreported_thermostat\<rparr>) =
      (?e\<lparr>device := unreported_thermostat, attr_hvac_mode := Some HVACMode_AUTO\<rparr>,
       Some valve_type_error)"
    by (simp add: update_attrs_def Let_def hvac_mode_of_def valve_of_def
        hvac_action_of_def unreported_thermostat_def refreshed_thermostat_def
        factory_thermostat_def OFF_TEMPERATURE_def)
  have h: "handle_coordinator_update unreported_cube ?e =
      (?e\<lparr>device := unreported_thermostat, attr_hvac_mode := Some HVACMode_AUTO\<rparr>,
       Raises valve_type_error)"
    using look upd by (simp add: handle_coordinator_update_def)
  have fields: "mode unreported_thermostat = Some MAX_DEVICE_MODE_AUTOMATIC \<and>
      target_temperature unreported_thermostat = Some 17"
    by (simp add: unreported_thermostat_def refreshed_thermostat_def)
  have after: "climate_state
      (?e\<lparr>device := unreported_thermostat, attr_hvac_mode := Some HVACMode_AUTO\<rparr>) =
      (Some HVACMode_AUTO, HVACAction_HEATING, Some 20, Some 21, Some PRESET_COMFORT,
       [(ATTR_VALVE_POSITION, Some 40)])"
    using before by (simp add: climate_state_def)
  from look before h fields after show ?thesis by simp
qed

section \<open>The command path\<close>

lemma climate_state_device_update: "climate_state (e\<lparr>device := d\<rparr>) = climate_state e"
  by (simp add: climate_state_def)

lemma entity_after_set_temperature_mode:
  "entity_after (async_set_temperature_mode io e t m) =
     e\<lparr>device := snd (set_temperature_mode io (device e) t m)\<rparr>"
  by (simp add: async_set_temperature_mode_def split: option.splits prod.splits)

lemma state_after_set_temperature_mode:
  "climate_state (entity_after (async_set_temperature_mode io e t m)) = climate_state e"
  by (simp add: entity_after_set_temperature_mode climate_state_device_update)

lemma state_after_set_hvac_mode:
  "climate_state (entity_after (async_set_hvac_mode io e h)) = climate_state e"
  by (simp add: async_set_hvac_mode_def Let_def state_after_set_temperature_mode
      nothing_sent_def raises_def split: option.splits)

lemma state_after_set_preset_mode:
  "climate_state (entity_after (async_set_preset_mode io e p)) = climate_state e"
  by (simp add: async_set_preset_mode_def state_after_set_temperature_mode
      nothing_sent_def)

lemma state_after_set_temperature:
  "climate_state (entity_after (async_set_temperature io e t)) = climate_state e"
  by (simp add: async_set_temperature_def state_after_set_temperature_mode
      nothing_sent_def split: option.splits)

text \<open>
  Claim C2, as amended. \<^verbatim>\<open>_async_set_temperature_mode\<close> assigns nothing on the entity:
  whatever the temperature and mode are, whatever the library's call does and whether
  it and the refresh request return or raise, every derived attribute of the entity
  is as before, and \<^verbatim>\<open>self._device\<close> is the object that was passed to the library, with
  its attributes as the library's call left them; when that call leaves the device as
  it was, the whole entity is unchanged. When the method returns, what it did is the
  command to the cube followed by the request for a refresh; when it raises, it raises
  \<^verbatim>\<open>HomeAssistantError\<close>. The three methods that end in it leave the derived attributes
  unchanged too. (The derived attributes change in \<^verbatim>\<open>_handle_coordinator_update\<close>, which
  a refresh calls.)
\<close>

theorem command_leaves_attributes_unchanged:
  "climate_state (entity_after (async_set_temperature_mode io e temperature m)) =
     climate_state e \<and>
   attr_unique_id (entity_after (async_set_temperature_mode io e temperature m)) =
     attr_unique_id e \<and>
   entity_after (async_set_temperature_mode io e temperature m) =
     e\<lparr>device := snd (set_temperature_mode io (device e) temperature m)\<rparr> \<and>
   (snd (set_temperature_mode io (device e) temperature m) = device e \<longrightarrow>
      entity_after (async_set_temperature_mode io e temperature m) = e) \<and>
   (raised (async_set_temperature_mode io e temperature m) = None \<longrightarrow>
      calls (async_set_temperature_mode io e temperature m) =
        [SetTemperatureMode (device e) temperature m, RequestRefresh]) \<and>
   (\<forall>err. raised (async_set_temperature_mode io e temperature m) = Some err \<longrightarrow>
      (\<exists>msg cause. err = HomeAssistantError msg cause)) \<and>
   climate_state (entity_after (async_set_hvac_mode io e h)) = climate_state e \<and>
   climate_state (entity_after (async_set_preset_mode io e p)) = climate_state e \<and>
   climate_state (entity_after (async_set_temperature io e t)) = climate_state e"
proof -
  have after: "entity_after (async_set_temperature_mode io e temperature m) =
      e\<lparr>device := snd (set_temperature_mode io (device e) temperature m)\<rparr>"
    by (rule entity_after_set_temperature_mode)
  have same: "snd (set_temperature_mode io (device e) temperature m) = device e \<longrightarrow>
      entity_after (async_set_temperature_mode io e temperature m) = e"
    by (simp add: after)
  have ok: "raised (async_set_temperature_mode io e temperature m) = None \<longrightarrow>
      calls (async_set_temperature_mode io e temperature m) =
        [SetTemperatureMode (device e) temperature m, RequestRefresh]"
    by (simp add: async_set_temperature_mode_def split: option.splits prod.splits)
  have wrapped: "\<exists>msg cause. command_error x = HomeAssistantError msg cause" for x
    by (cases x) simp_all
  have err: "\<forall>err. raised (async_set_temperature_mode io e temperature m) = Some err \<longrightarrow>
      (\<exists>msg cause. err = HomeAssistantError msg cause)"
    using wrapped
    by (auto simp: async_set_temperature_mode_def split: option.splits prod.splits)
  have uid: "attr_unique_id (entity_after (async_set_temperature_mode io e temperature m)) =
      attr_unique_id e"
    by (simp add: after)
  from after same ok err uid show ?thesis
    by (simp add: state_after_set_hvac_mode state_after_set_preset_mode
        state_after_set_temperature climate_state_device_update)
qed

text \<open>
  Claim C2, witness: switching the factory thermostat off. With a library that leaves
  the device alone, the command and the refresh request are made and the entity is
  unchanged. With a library that assigns the command to the device, the derived
  attributes are still those of manual mode at 21 degrees, and they change when the
  handler of the coordinator update then receives a new snapshot. With a library that
  times out, \<^verbatim>\<open>HomeAssistantError\<close> is raised.
\<close>

theorem command_leaves_attributes_unchanged_witness:
  "snd (set_temperature_mode io_ok
      (device (climate_init no_rooms_cube factory_thermostat)) (Some OFF_TEMPERATURE)
      (Some MAX_DEVICE_MODE_MANUAL)) =
     device (climate_init no_rooms_cube factory_thermostat) \<and>
   entity_after (async_set_temperature_mode io_ok
      (climate_init no_rooms_cube factory_thermostat) (Some OFF_TEMPERATURE)
      (Some MAX_DEVICE_MODE_MANUAL)) = climate_init no_rooms_cube factory_thermostat \<and>
   raised (async_set_temperature_mode io_assigning
      (climate_init no_rooms_cube factory_thermostat) (Some OFF_TEMPERATURE)
      (Some MAX_DEVICE_MODE_MANUAL)) = None \<and>
   calls (async_set_temperature_mode io_assigning
      (climate_init no_rooms_cube factory_thermostat) (Some OFF_TEMPERATURE)
      (Some MAX_DEVICE_MODE_MANUAL)) =
     [SetTemperatureMode factory_thermostat (Some OFF_TEMPERATURE)
        (Some MAX_DEVICE_MODE_MANUAL), RequestRefresh] \<and>
   climate_state
     (entity_after (async_set_temperature_mode io_assigning
        (climate_init no_rooms_cube factory_thermostat) (Some OFF_TEMPERATURE)
        (Some MAX_DEVICE_MODE_MANUAL))) =
     (Some HVACMode_HEAT, HVACAction_HEATING, Some 20, Some 21, Some PRESET_COMFORT,
      [(ATTR_VALVE_POSITION, Some 40)]) \<and>
   climate_state
     (fst (handle_coordinator_update refreshed_cube
        (entity_after (async_set_temperature_mode io_assigning
           (climate_init no_rooms_cube factory_thermostat) (Some OFF_TEMPERATURE)
           (Some MAX_DEVICE_MODE_MANUAL))))) =
     (Some HVACMode_AUTO, HVACAction_IDLE, Some 19, Some 17, None,
      [(ATTR_VALVE_POSITION, Some 0)]) \<and>
   raised (async_set_temperature_mode io_timeout
      (climate_init no_rooms_cube factory_thermostat) (Some OFF_TEMPERATURE)
      (Some MAX_DEVICE_MODE_MANUAL)) =
     Some (HomeAssistantError ''Failed to set mode/temperature: timed out''
       (TimeoutError ''timed out''))"
proof -
  let ?e = "climate_init no_rooms_cube factory_thermostat"
  let ?r = "async_set_temperature_mode io_assigning ?e (Some OFF_TEMPERATURE)
      (Some MAX_DEVICE_MODE_MANUAL)"
  have left: "snd (set_temperature_mode io_ok (device ?e) (Some OFF_TEMPERATURE)
      (Some MAX_DEVICE_MODE_MANUAL)) = device ?e"
    by (simp add: io_ok_def)
  have ok: "raised ?r = None"
    by (simp add: async_set_temperature_mode_def io_assigning_def)
  have failed: "raised (async_set_temperature_mode io_timeout ?e (Some OFF_TEMPERATURE)
      (Some MAX_DEVICE_MODE_MANUAL)) =
     Some (HomeAssistantError ''Failed to set mode/temperature: timed out''
       (TimeoutError ''timed out''))"
    by (simp add: async_set_temperature_mode_def io_timeout_def)
  have addr: "rf_address (device (entity_after ?r)) = ''1234AB''"
    by (simp add: entity_after_set_temperature_mode io_assigning_def device_climate_init
        factory_thermostat_def)
  have look: "device_by_rf refreshed_cube (rf_address (device (entity_after ?r))) =
      Some refreshed_thermostat"
    by (simp add: addr refreshed_cube_def)
  have later: "climate_state (fst (handle_coordinator_update refreshed_cube
      (entity_after ?r))) =
      (Some HVACMode_AUTO, HVACAction_IDLE, Some 19, Some 17, None,
       [(ATTR_VALVE_POSITION, Some 0)])"
    using handler_completes_with_latest_state [OF look] refreshed_entity_state
    by simp
  note io_ok_case = command_leaves_attributes_unchanged
    [of io_ok ?e "Some OFF_TEMPERATURE" "Some MAX_DEVICE_MODE_MANUAL"]
  note io_assigning_case = command_leaves_attributes_unchanged
    [of io_assigning ?e "Some OFF_TEMPERATURE" "Some MAX_DEVICE_MODE_MANUAL"]
  from io_ok_case left have unchanged: "entity_after (async_set_temperature_mode io_ok
      ?e (Some OFF_TEMPERATURE) (Some MAX_DEVICE_MODE_MANUAL)) = ?e"
    by blast
  from io_assigning_case ok have made: "calls ?r =
      [SetTemperatureMode (device ?e) (Some OFF_TEMPERATURE)
         (Some MAX_DEVICE_MODE_MANUAL), RequestRefresh]"
    by blast
  from io_assigning_case have st: "climate_state (entity_after ?r) = climate_state ?e"
    by blast
  from left unchanged ok made st later failed factory_entity_state show ?thesis
    by (simp add: device_climate_init)
qed

text \<open>
  Claim C2 as stated fails for the cached device. The method passes \<^verbatim>\<open>self._device\<close>
  itself to the library; with a library that assigns an acknowledged command to the
  device, switching the factory thermostat off returns with the cached device at the
  new target of 4.5 degrees instead of 21, before any refresh.
\<close>

theorem command_changes_cached_device:
  "raised (async_set_temperature_mode io_assigning
      (climate_init no_rooms_cube factory_thermostat) (Some OFF_TEMPERATURE)
      (Some MAX_DEVICE_MODE_MANUAL)) = None \<and>
   target_temperature (device (climate_init no_rooms_cube factory_thermostat)) = Some 21 \<and>
   target_temperature
     (device
        (entity_after (async_set_temperature_mode io_assigning
           (climate_init no_rooms_cube factory_thermostat) (Some OFF_TEMPERATURE)
           (Some MAX_DEVICE_MODE_MANUAL)))) = Some (9 / 2) \<and>
   entity_after (async_set_temperature_mode io_assigning
      (climate_init no_rooms_cube factory_thermostat) (Some OFF_TEMPERATURE)
      (Some MAX_DEVICE_MODE_MANUAL)) \<noteq> climate_init no_rooms_cube factory_thermostat"
proof -
  let ?e = "climate_init no_rooms_cube factory_thermostat"
  let ?r = "async_set_temperature_mode io_assigning ?e (Some OFF_TEMPERATURE)
      (Some MAX_DEVICE_MODE_MANUAL)"
  have ok: "raised ?r = None"
    by (simp add: async_set_temperature_mode_def io_assigning_def)
  have before: "target_temperature (device ?e) = Some 21"
    by (simp add: device_climate_init factory_thermostat_def)
  have after: "target_temperature (device (entity_after ?r)) = Some (9 / 2)"
    by (simp add: entity_after_set_temperature_mode io_assigning_def
        OFF_TEMPERATURE_def)
  have "entity_after ?r \<noteq> ?e"
  proof
    assume "entity_after ?r = ?e"
    then have "target_temperature (device (entity_after ?r)) =
        target_temperature (device ?e)"
      by simp
    with before after show False by simp
  qed
  with ok before after show ?thesis by simp
qed

section \<open>The refresh\<close>

text \<open>
  Claim C3. \<^verbatim>\<open>_async_update_data\<close> returns the updated cube when the library's \<^verbatim>\<open>update\<close>
  returns. When \<^verbatim>\<open>update\<close> raises an exception, it raises \<^verbatim>\<open>UpdateFailed\<close> with that
  exception as its cause; it raises nothing else, and then only because \<^verbatim>\<open>update\<close>
  raised. After a failed refresh the coordinator's data and cube are the ones from
  before; after a successful one the data is the returned cube.
\<close>

theorem update_data_returns_cube_or_update_failed:
  "(\<forall>updated. lib_update (cube co) = Inr updated \<longrightarrow>
      async_update_data lib_update co = Inr updated \<and>
      snapshot (async_refresh lib_update co) = Some updated) \<and>
   (\<forall>err. lib_update (cube co) = Inl err \<longrightarrow>
      (\<exists>msg. async_update_data lib_update co = Inl (UpdateFailed msg err)) \<and>
      snapshot (async_refresh lib_update co) = snapshot co \<and>
      cube (async_refresh lib_update co) = cube co) \<and>
   (\<forall>x. async_update_data lib_update co = Inl x \<longrightarrow>
      (\<exists>msg err. x = UpdateFailed msg err \<and> lib_update (cube co) = Inl err))"
proof -
  have ok: "async_update_data lib_update co = Inr updated \<and>
      snapshot (async_refresh lib_update co) = Some updated"
    if "lib_update (cube co) = Inr updated" for updated
    using that by (simp add: async_update_data_def async_refresh_def)
  have wrap: "\<exists>msg. async_update_data lib_update co = Inl (UpdateFailed msg err)"
    if "lib_update (cube co) = Inl err" for err
    using that by (cases err) (simp_all add: async_update_data_def)
  have kept: "snapshot (async_refresh lib_update co) = snapshot co \<and>
      cube (async_refresh lib_update co) = cube co"
    if "lib_update (cube co) = Inl err" for err
    using wrap [OF that] by (auto simp: async_refresh_def)
  have only: "\<exists>msg err. x = UpdateFailed msg err \<and> lib_update (cube co) = Inl err"
    if "async_update_data lib_update co = Inl x" for x
  proof (cases "lib_update (cube co)")
    case (Inl err)
    from wrap [OF Inl] that Inl show ?thesis by auto
  next
    case (Inr updated)
    with that show ?thesis by (simp add: async_update_data_def)
  qed
  from ok wrap kept only show ?thesis by blast
qed

text \<open>
  Claim C3, witness: a coordinator whose data is the cube without rooms. An update
  that returns gives the new cube, which becomes the data; an update that raises
  \<^verbatim>\<open>OSError\<close> or \<^verbatim>\<open>TimeoutError\<close> gives \<^verbatim>\<open>UpdateFailed\<close> with that cause, and the data stays
  the cube without rooms.
\<close>

theorem update_data_returns_cube_or_update_failed_witness:
  "lib_update_ok (cube running_coordinator) = Inr refreshed_cube \<and>
   async_update_data lib_update_ok running_coordinator = Inr refreshed_cube \<and>
   snapshot (async_refresh lib_update_ok running_coordinator) = Some refreshed_cube \<and>
   lib_update_fails (cube running_coordinator) = Inl (OSError ''connection reset'') \<and>
   async_update_data lib_update_fails running_coordinator =
     Inl (UpdateFailed ''Error communicating with MAX! Cube cube.local: connection reset''
       (OSError ''connection reset'')) \<and>
   snapshot (async_refresh lib_update_fails running_coordinator) = Some no_rooms_cube \<and>
   async_update_data lib_update_times_out running_coordinator =
     Inl (UpdateFailed ''Timeout communicating with MAX! Cube cube.local: timed out''
       (TimeoutError ''timed out'')) \<and>
   snapshot (async_refresh lib_update_times_out running_coordinator) = Some no_rooms_cube"
proof -
  have a: "lib_update_ok (cube running_coordinator) = Inr refreshed_cube"
    by (simp add: lib_update_ok_def)
  have b: "lib_update_fails (cube running_coordinator) = Inl (OSError ''connection reset'')"
    by (simp add: lib_update_fails_def)
  have c: "lib_update_times_out (cube running_coordinator) = Inl (TimeoutError ''timed out'')"
    by (simp add: lib_update_times_out_def)
  have s: "snapshot running_coordinator = Some no_rooms_cube"
    by (simp add: running_coordinator_def)
  have h: "host running_coordinator = ''cube.local''"
    by (simp add: running_coordinator_def coordinator_init_def)
  show ?thesis
    using a b c s h
      update_data_returns_cube_or_update_failed [of lib_update_ok running_coordinator]
      update_data_returns_cube_or_update_failed [of lib_update_fails running_coordinator]
      update_data_returns_cube_or_update_failed [of lib_update_times_out running_coordinator]
    by (simp add: async_update_data_def)
qed

section \<open>The update lock\<close>

text \<open>
  Replacing an element of a list changes the number of elements with a property by
  what the old and the new element contribute.
\<close>

lemma filter_update_length:
  "i < length xs \<Longrightarrow>
     length (filter P (xs[i := y])) + (if P (xs ! i) then 1 else 0) =
     length (filter P xs) + (if P y then 1 else 0)"
proof (induction xs arbitrary: i)
  case Nil
  then show ?case by simp
next
  case (Cons x xs)
  show ?case
  proof (cases i)
    case 0
    then show ?thesis by simp
  next
    case (Suc j)
    with Cons.prems have "j < length xs" by simp
    from Cons.IH [OF this] Suc show ?thesis by simp
  qed
qed

text \<open>
  Refreshes exclude one another: while every task is a refresh, a step keeps the number
  of jobs on the wire equal to one when the lock is held and to zero when it is free.
\<close>

lemma step_refresh_only:
  assumes st: "step i s = Some s'" and ro: "refresh_only s" and lc: "lock_counts s"
  shows "refresh_only s' \<and> lock_counts s'"
proof -
  from st have i: "i < length (tasks s)"
    by (simp add: step_def split: if_splits)
  obtain p where t: "tasks s ! i = (Refresh, p)"
    using ro i by (cases "tasks s ! i") (auto simp: refresh_only_def list_all_length)
  note count = filter_update_length [OF i, of on_wire]
  show ?thesis
  proof (cases p)
    case Waiting
    with st i t have free: "\<not> update_lock s"
      and s': "s' = \<lparr>update_lock = True, tasks = (tasks s)[i := (Refresh, OnWire)]\<rparr>"
      by (auto simp: step_def split: if_splits)
    from count [of "(Refresh, OnWire)"] t Waiting lc free
    have "outstanding s' = 1"
      by (simp add: s' outstanding_def on_wire_def lock_counts_def)
    moreover from ro i have "refresh_only s'"
      by (auto simp: s' refresh_only_def list_all_length nth_list_update)
    ultimately show ?thesis by (simp add: lock_counts_def s')
  next
    case OnWire
    with st i t have s': "s' = \<lparr>update_lock = False, tasks = (tasks s)[i := (Refresh, Finished)]\<rparr>"
      by (auto simp: step_def split: if_splits)
    from count [of "(Refresh, Finished)"] t OnWire
    have c: "outstanding s' + 1 = outstanding s"
      by (simp add: s' outstanding_def on_wire_def)
    with lc have "outstanding s' = 0"
      by (simp add: lock_counts_def split: if_splits)
    moreover from ro i have "refresh_only s'"
      by (auto simp: s' refresh_only_def list_all_length nth_list_update)
    ultimately show ?thesis by (simp add: lock_counts_def s')
  next
    case Finished
    with st i t show ?thesis by (simp add: step_def)
  qed
qed

lemma run_refresh_only:
  "run sched s = Some s' \<Longrightarrow> refresh_only s \<Longrightarrow> lock_counts s \<Longrightarrow>
     refresh_only s' \<and> lock_counts s'"
proof (induction sched arbitrary: s)
  case Nil
  then show ?case by simp
next
  case (Cons i sched)
  from Cons.prems(1) obtain s1 where s1: "step i s = Some s1" and r: "run sched s1 = Some s'"
    by (auto split: option.splits)
  from step_refresh_only [OF s1 Cons.prems(2,3)] Cons.IH [OF r] show ?case by blast
qed

lemma refreshes_never_overlap:
  assumes "run sched (start ops) = Some s" and "list_all (\<lambda>opn. opn = Refresh) ops"
  shows "outstanding s \<le> 1"
proof -
  have ro: "refresh_only (start ops)"
    using assms(2) by (simp add: refresh_only_def start_def list_all_length)
  have lc: "lock_counts (start ops)"
    by (simp add: lock_counts_def start_def outstanding_def on_wire_def filter_empty_conv
        o_def)
  from run_refresh_only [OF assms(1) ro lc] show ?thesis
    by (simp add: lock_counts_def split: if_splits)
qed

text \<open>
  Claim C4. The claim is that a refresh and a command are never on the wire together,
  because both hold the coordinator's lock. In the source only the refresh takes
  \<^verbatim>\<open>_update_lock\<close>; \<^verbatim>\<open>_async_set_temperature_mode\<close> never does. So with one refresh and one
  command, the schedule in which the refresh starts its job and then the command
  starts its own is possible, and it leaves two jobs on the wire while the lock is
  held.
\<close>

theorem refresh_and_command_overlap:
  "run [0, 1] (start [Refresh, Command]) =
     Some \<lparr>update_lock = True, tasks = [(Refresh, OnWire), (Command, OnWire)]\<rparr> \<and>
   outstanding \<lparr>update_lock = True, tasks = [(Refresh, OnWire), (Command, OnWire)]\<rparr> = 2"
  by (simp add: step_def start_def outstanding_def on_wire_def)

section \<open>Setting the HVAC mode\<close>

text \<open>
  What \<^verbatim>\<open>async_set_hvac_mode\<close> sends: for \<^verbatim>\<open>AUTO\<close> automatic mode without a temperature,
  for \<^verbatim>\<open>OFF\<close> manual mode at 4.5 degrees, and for \<^verbatim>\<open>HEAT\<close> manual mode at a temperature
  above 4.5 degrees and not below \<open>min_temp\<close>, unless the entity has no target above 4.5
  degrees and the device has no comfort temperature: then \<^verbatim>\<open>TypeError\<close> is raised and
  nothing is sent.
\<close>

lemma set_hvac_mode_commands:
  "commands_sent (calls (async_set_hvac_mode io e HVACMode_AUTO)) =
     [(None, Some MAX_DEVICE_MODE_AUTOMATIC)] \<and>
   commands_sent (calls (async_set_hvac_mode io e HVACMode_OFF)) =
     [(Some OFF_TEMPERATURE, Some MAX_DEVICE_MODE_MANUAL)] \<and>
   ((\<exists>t. commands_sent (calls (async_set_hvac_mode io e HVACMode_HEAT)) =
            [(Some t, Some MAX_DEVICE_MODE_MANUAL)] \<and>
          OFF_TEMPERATURE < t \<and> min_temp e \<le> t) \<or>
    (comfort_temperature (device e) = None \<and>
     (\<forall>t. attr_target_temperature e = Some t \<longrightarrow> t \<le> OFF_TEMPERATURE) \<and>
     (\<exists>msg. raised (async_set_hvac_mode io e HVACMode_HEAT) = Some (TypeError msg)) \<and>
     calls (async_set_hvac_mode io e HVACMode_HEAT) = []))"
proof -
  have lo: "OFF_TEMPERATURE < min_temp e"
    using min_temp_ge [of e] by (simp add: MIN_TEMPERATURE_def OFF_TEMPERATURE_def)
  have gt: "OFF_TEMPERATURE < max t (min_temp e)" for t
    using lo by simp
  show ?thesis
    using gt
    by (auto simp: async_set_hvac_mode_def Let_def set_temperature_mode_sent raises_def
        split: option.splits)
qed

text \<open>
  Claim C5. The claim is that \<^verbatim>\<open>HEAT\<close> sends manual mode with a temperature above 4.5
  degrees and at least \<open>min_temp\<close>. For a wall thermostat that is switched off, so that
  the entity has no target temperature, and whose comfort temperature is \<^verbatim>\<open>None\<close>, the
  fallback temperature is \<^verbatim>\<open>None\<close>, \<^verbatim>\<open>max(temp, self.min_temp)\<close> raises \<^verbatim>\<open>TypeError\<close>, and no
  command reaches the cube.
\<close>

theorem heat_without_comfort_temperature_raises:
  "attr_hvac_mode (climate_init no_rooms_cube unconfigured_thermostat) = Some HVACMode_OFF \<and>
   attr_target_temperature (climate_init no_rooms_cube unconfigured_thermostat) = None \<and>
   raised
     (async_set_hvac_mode io_ok (climate_init no_rooms_cube unconfigured_thermostat)
        HVACMode_HEAT) =
     Some (TypeError ''> not supported between float and NoneType'') \<and>
   calls
     (async_set_hvac_mode io_ok (climate_init no_rooms_cube unconfigured_thermostat)
        HVACMode_HEAT) = []"
  by (simp add: async_set_hvac_mode_def Let_def raises_def climate_init_def
      new_climate_def update_attrs_def hvac_mode_of_def valve_of_def
      hvac_action_of_def no_rooms_cube_def unconfigured_thermostat_def
      OFF_TEMPERATURE_def)

section \<open>The connection policy\<close>

text \<open>
  Claim C6. The coordinator sets \<^verbatim>\<open>cube.use_persistent_connection\<close> to the truth value of
  "the update interval is at most 300 seconds": for an interval of a whole number of
  seconds, the flag is set exactly when that number is at most 300. The default scan
  interval is 30 seconds, and with it the persistent connection is selected.
\<close>

theorem persistent_connection_policy:
  "use_persistent_connection (cube (coordinator_init new_cube h interval)) =
     (interval \<le> timedelta_seconds 300) \<and>
   use_persistent_connection (cube (coordinator_init new_cube h (timedelta_seconds secs))) =
     (secs \<le> 300) \<and>
   DEFAULT_SCAN_INTERVAL = timedelta_seconds 30 \<and>
   use_persistent_connection (cube (coordinator_init new_cube h DEFAULT_SCAN_INTERVAL))"
  by (simp add: coordinator_init_def timedelta_seconds_def DEFAULT_SCAN_INTERVAL_def)

section \<open>Setting a temperature\<close>

text \<open>
  Claim C7, as amended. For every temperature \<open>t\<close> given to \<^verbatim>\<open>async_set_temperature\<close>,
  one command is passed to the cube, in manual mode, with the temperature
  \<open>max min_temp (min max_temp t)\<close>. That value is never below \<open>min_temp\<close>. Whenever
  \<open>min_temp \<le> max_temp\<close>, it is \<open>t\<close> clamped into the closed interval from \<open>min_temp\<close>
  to \<open>max_temp\<close>: never above \<open>max_temp\<close>, equal to \<open>t\<close> inside the interval, and the
  nearer end outside it. Where the limits cross, it is \<open>min_temp\<close>.
\<close>

theorem set_temperature_clamps:
  "\<exists>v. commands_sent (calls (async_set_temperature io e (Some t))) =
         [(Some v, Some MAX_DEVICE_MODE_MANUAL)] \<and>
       v = max (min_temp e) (min (max_temp e) t) \<and>
       min_temp e \<le> v \<and>
       (min_temp e \<le> max_temp e \<longrightarrow>
          v \<le> max_temp e \<and>
          (min_temp e \<le> t \<and> t \<le> max_temp e \<longrightarrow> v = t) \<and>
          (t < min_temp e \<longrightarrow> v = min_temp e) \<and>
          (max_temp e < t \<longrightarrow> v = max_temp e)) \<and>
       (max_temp e < min_temp e \<longrightarrow> v = min_temp e)"
  by (auto simp: set_temperature_sent)

text \<open>
  Claim C7, witness: the factory thermostat has \<open>min_temp = 5 \<le> max_temp = 30\<close>, and a
  request for 35 degrees is sent as 30 degrees, one for 2 degrees as 5 degrees and one
  for 21 degrees as it is. The thermostat whose \<^verbatim>\<open>min_temperature\<close> is 30.5 has crossed
  limits, and a request for 35 degrees is sent as its \<open>min_temp\<close>.
\<close>

theorem set_temperature_clamps_witness:
  "min_temp (climate_init no_rooms_cube factory_thermostat)
     \<le> max_temp (climate_init no_rooms_cube factory_thermostat) \<and>
   max_temp (climate_init no_rooms_cube factory_thermostat) < 35 \<and>
   (\<exists>v. commands_sent
          (calls (async_set_temperature io_ok
             (climate_init no_rooms_cube factory_thermostat) (Some 35))) =
          [(Some v, Some MAX_DEVICE_MODE_MANUAL)] \<and>
        v = max_temp (climate_init no_rooms_cube factory_thermostat) \<and> v = 30) \<and>
   2 < min_temp (climate_init no_rooms_cube factory_thermostat) \<and>
   (\<exists>v. commands_sent
          (calls (async_set_temperature io_ok
             (climate_init no_rooms_cube factory_thermostat) (Some 2))) =
          [(Some v, Some MAX_DEVICE_MODE_MANUAL)] \<and>
        v = min_temp (climate_init no_rooms_cube factory_thermostat) \<and> v = 5) \<and>
   (\<exists>v. commands_sent
          (calls (async_set_temperature io_ok
             (climate_init no_rooms_cube factory_thermostat) (Some 21))) =
          [(Some v, Some MAX_DEVICE_MODE_MANUAL)] \<and> v = 21) \<and>
   max_temp (climate_init no_rooms_cube min_on_thermostat)
     < min_temp (climate_init no_rooms_cube min_on_thermostat) \<and>
   (\<exists>v. commands_sent
          (calls (async_set_temperature io_ok
             (climate_init no_rooms_cube min_on_thermostat) (Some 35))) =
          [(Some v, Some MAX_DEVICE_MODE_MANUAL)] \<and>
        v = min_temp (climate_init no_rooms_cube min_on_thermostat))"
  using
    set_temperature_clamps [of io_ok "climate_init no_rooms_cube factory_thermostat" 35]
    set_temperature_clamps [of io_ok "climate_init no_rooms_cube factory_thermostat" 2]
    set_temperature_clamps [of io_ok "climate_init no_rooms_cube factory_thermostat" 21]
    set_temperature_clamps [of io_ok "climate_init no_rooms_cube min_on_thermostat" 35]
  by (auto simp: set_temperature_sent min_temp_def max_temp_def device_climate_init
      min_on_thermostat_def factory_thermostat_def MIN_TEMPERATURE_def
      MAX_TEMPERATURE_def)

text \<open>
  Claim C7 as stated fails where the limits cross. A thermostat that reports a
  \<^verbatim>\<open>min_temperature\<close> of 30.5 has \<open>min_temp = 30.5\<close> and \<open>max_temp = 30\<close>; a request for
  21 degrees is sent as 30.5 degrees, which is above \<open>max_temp\<close>.
\<close>

theorem set_temperature_above_max_temp:
  "commands_sent
     (calls (async_set_temperature io_ok
        (climate_init no_rooms_cube min_on_thermostat) (Some 21))) =
     [(Some (61 / 2), Some MAX_DEVICE_MODE_MANUAL)] \<and>
   max_temp (climate_init no_rooms_cube min_on_thermostat) = 30 \<and>
   \<not> (61 / 2 \<le> max_temp (climate_init no_rooms_cube min_on_thermostat))"
  by (simp add: set_temperature_sent min_temp_def max_temp_def device_climate_init
      min_on_thermostat_def factory_thermostat_def
      MIN_TEMPERATURE_def MAX_TEMPERATURE_def)

section \<open>The temperature limits\<close>

text \<open>
  Claim C8, as amended. For every device state (the limits of the device missing,
  \<^verbatim>\<open>None\<close>, zero or out of range included) \<open>min_temp\<close> is at least 5.0 and \<open>max_temp\<close> is
  at most 30.0. The setpoint that \<^verbatim>\<open>async_set_temperature\<close> sends is at least 5.0, so it
  is never the sentinel 4.5. Whenever \<open>min_temp \<le> max_temp\<close> it is at most 30.0, so it is
  not the sentinel 30.5; it is 30.5 only for a device whose own \<^verbatim>\<open>min_temperature\<close> is
  30.5.
\<close>

theorem temp_limits_and_setpoint:
  "MIN_TEMPERATURE \<le> min_temp e \<and> max_temp e \<le> MAX_TEMPERATURE \<and>
   (\<exists>v. commands_sent (calls (async_set_temperature io e (Some t))) =
          [(Some v, Some MAX_DEVICE_MODE_MANUAL)] \<and>
        MIN_TEMPERATURE \<le> v \<and> v \<noteq> OFF_TEMPERATURE \<and>
        (min_temp e \<le> max_temp e \<longrightarrow> v \<le> MAX_TEMPERATURE \<and> v \<noteq> ON_TEMPERATURE) \<and>
        (v = ON_TEMPERATURE \<longrightarrow>
           min_temperature (device e) = Present (Some ON_TEMPERATURE)))"
proof -
  let ?v = "max (min_temp e) (min (max_temp e) t)"
  have lo: "MIN_TEMPERATURE \<le> min_temp e" by (rule min_temp_ge)
  have hi: "max_temp e \<le> MAX_TEMPERATURE" by (rule max_temp_le)
  have sent: "commands_sent (calls (async_set_temperature io e (Some t))) =
      [(Some ?v, Some MAX_DEVICE_MODE_MANUAL)]"
    by (rule set_temperature_sent)
  have ge: "MIN_TEMPERATURE \<le> ?v" using lo by simp
  have off: "?v \<noteq> OFF_TEMPERATURE"
    using ge by (simp add: MIN_TEMPERATURE_def OFF_TEMPERATURE_def)
  have le: "min_temp e \<le> max_temp e \<longrightarrow> ?v \<le> MAX_TEMPERATURE \<and> ?v \<noteq> ON_TEMPERATURE"
    using hi by (auto simp: MAX_TEMPERATURE_def ON_TEMPERATURE_def)
  have on: "?v = ON_TEMPERATURE \<longrightarrow>
      min_temperature (device e) = Present (Some ON_TEMPERATURE)"
  proof
    assume eq: "?v = ON_TEMPERATURE"
    have "min (max_temp e) t < ON_TEMPERATURE"
      using hi by (simp add: MAX_TEMPERATURE_def ON_TEMPERATURE_def min_def)
    with eq have m: "min_temp e = ON_TEMPERATURE" by (simp add: max_def split: if_splits)
    show "min_temperature (device e) = Present (Some ON_TEMPERATURE)"
    proof (cases "min_temperature (device e)")
      case Absent
      with m show ?thesis
        by (simp add: min_temp_def MIN_TEMPERATURE_def ON_TEMPERATURE_def)
    next
      case (Present x)
      show ?thesis
      proof (cases x)
        case None
        with Present m show ?thesis
          by (simp add: min_temp_def MIN_TEMPERATURE_def ON_TEMPERATURE_def)
      next
        case (Some y)
        with Present m show ?thesis
          by (simp add: min_temp_def MIN_TEMPERATURE_def ON_TEMPERATURE_def max_def
              split: if_splits)
      qed
    qed
  qed
  from lo hi sent ge off le on show ?thesis by blast
qed

text \<open>
  Claim C8, witness: for the factory thermostat a request for 2 degrees is sent as 5
  degrees, which is neither sentinel; for the thermostat whose \<^verbatim>\<open>min_temperature\<close> is
  30.5 the same request is sent as 30.5.
\<close>

theorem temp_limits_and_setpoint_witness:
  "min_temp (climate_init no_rooms_cube factory_thermostat)
     \<le> max_temp (climate_init no_rooms_cube factory_thermostat) \<and>
   (\<exists>v. commands_sent
          (calls (async_set_temperature io_ok
             (climate_init no_rooms_cube factory_thermostat) (Some 2))) =
          [(Some v, Some MAX_DEVICE_MODE_MANUAL)] \<and>
        v = 5 \<and> v \<noteq> OFF_TEMPERATURE \<and> v \<noteq> ON_TEMPERATURE) \<and>
   min_temperature (device (climate_init no_rooms_cube min_on_thermostat)) =
     Present (Some ON_TEMPERATURE) \<and>
   commands_sent
     (calls (async_set_temperature io_ok
        (climate_init no_rooms_cube min_on_thermostat) (Some 2))) =
     [(Some ON_TEMPERATURE, Some MAX_DEVICE_MODE_MANUAL)]"
  using temp_limits_and_setpoint
    [of "climate_init no_rooms_cube factory_thermostat" io_ok 2]
    temp_limits_and_setpoint
    [of "climate_init no_rooms_cube min_on_thermostat" io_ok 2]
  by (simp add: set_temperature_sent min_temp_def max_temp_def device_climate_init
      min_on_thermostat_def factory_thermostat_def
      MIN_TEMPERATURE_def MAX_TEMPERATURE_def ON_TEMPERATURE_def OFF_TEMPERATURE_def)

text \<open>
  Claim C8 as stated fails in its last part: for the thermostat whose
  \<^verbatim>\<open>min_temperature\<close> is 30.5, the setpoint sent for a request of 20 degrees is the
  sentinel 30.5.
\<close>

theorem setpoint_on_sentinel:
  "commands_sent
     (calls (async_set_temperature io_ok
        (climate_init no_rooms_cube min_on_thermostat) (Some 20))) =
     [(Some ON_TEMPERATURE, Some MAX_DEVICE_MODE_MANUAL)]"
  by (simp add: set_temperature_sent min_temp_def max_temp_def device_climate_init
      min_on_thermostat_def factory_thermostat_def
      MIN_TEMPERATURE_def MAX_TEMPERATURE_def ON_TEMPERATURE_def)

section \<open>The current preset\<close>

text \<open>
  Claim C9. \<^verbatim>\<open>_get_current_preset\<close> is a function of the device's mode, target, comfort
  and eco temperature alone. Boost mode gives the boost preset and vacation mode the
  away preset. In manual mode a target equal to the comfort temperature gives comfort,
  whatever the eco temperature is; otherwise a target equal to the eco temperature
  gives eco, also when it is 30.5; otherwise a target of 30.5 gives "on"; otherwise the
  result is \<^verbatim>\<open>None\<close>. Automatic mode and an unknown mode give \<^verbatim>\<open>None\<close>. The five presets
  are different strings.
\<close>

theorem current_preset_priority:
  "(mode (device e) = mode (device e') \<and>
    target_temperature (device e) = target_temperature (device e') \<and>
    comfort_temperature (device e) = comfort_temperature (device e') \<and>
    eco_temperature (device e) = eco_temperature (device e') \<longrightarrow>
      get_current_preset e = get_current_preset e') \<and>
   (mode (device e) = Some MAX_DEVICE_MODE_BOOST \<longrightarrow>
      get_current_preset e = Some PRESET_BOOST) \<and>
   (mode (device e) = Some MAX_DEVICE_MODE_VACATION \<longrightarrow>
      get_current_preset e = Some PRESET_AWAY) \<and>
   (mode (device e) = Some MAX_DEVICE_MODE_MANUAL \<and>
    target_temperature (device e) = comfort_temperature (device e) \<longrightarrow>
      get_current_preset e = Some PRESET_COMFORT) \<and>
   (mode (device e) = Some MAX_DEVICE_MODE_MANUAL \<and>
    target_temperature (device e) \<noteq> comfort_temperature (device e) \<and>
    target_temperature (device e) = eco_temperature (device e) \<longrightarrow>
      get_current_preset e = Some PRESET_ECO) \<and>
   (mode (device e) = Some MAX_DEVICE_MODE_MANUAL \<and>
    target_temperature (device e) \<noteq> comfort_temperature (device e) \<and>
    target_temperature (device e) \<noteq> eco_temperature (device e) \<and>
    target_temperature (device e) = Some ON_TEMPERATURE \<longrightarrow>
      get_current_preset e = Some PRESET_ON) \<and>
   (mode (device e) = Some MAX_DEVICE_MODE_MANUAL \<and>
    target_temperature (device e) \<noteq> comfort_temperature (device e) \<and>
    target_temperature (device e) \<noteq> eco_temperature (device e) \<and>
    target_temperature (device e) \<noteq> Some ON_TEMPERATURE \<longrightarrow>
      get_current_preset e = None) \<and>
   (mode (device e) = Some MAX_DEVICE_MODE_AUTOMATIC \<or> mode (device e) = None \<longrightarrow>
      get_current_preset e = None) \<and>
   distinct [PRESET_BOOST, PRESET_AWAY, PRESET_COMFORT, PRESET_ECO, PRESET_ON]"
  by (auto simp: get_current_preset_def Let_def PRESET_BOOST_def PRESET_AWAY_def
      PRESET_COMFORT_def PRESET_ECO_def PRESET_ON_def)

text \<open>
  Claim C9, witness: with target, comfort and eco all at 30.5 the preset is comfort;
  with target and eco at 30.5 it is eco; with only the target at 30.5 it is "on"; with
  a target of 19 it is \<^verbatim>\<open>None\<close>; boost, vacation and automatic mode give boost, away and
  \<^verbatim>\<open>None\<close>; and a device with another serial but the same four fields gives the same.
\<close>

theorem current_preset_priority_witness:
  "get_current_preset (climate_init no_rooms_cube all_on_thermostat) = Some PRESET_COMFORT \<and>
   get_current_preset (climate_init no_rooms_cube eco_on_thermostat) = Some PRESET_ECO \<and>
   get_current_preset
     (climate_init no_rooms_cube
        (factory_thermostat\<lparr>target_temperature := Some (61 / 2)\<rparr>)) = Some PRESET_ON \<and>
   get_current_preset
     (climate_init no_rooms_cube
        (factory_thermostat\<lparr>target_temperature := Some 19\<rparr>)) = None \<and>
   get_current_preset
     (climate_init no_rooms_cube
        (all_on_thermostat\<lparr>mode := Some MAX_DEVICE_MODE_BOOST\<rparr>)) = Some PRESET_BOOST \<and>
   get_current_preset
     (climate_init no_rooms_cube
        (all_on_thermostat\<lparr>mode := Some MAX_DEVICE_MODE_VACATION\<rparr>)) = Some PRESET_AWAY \<and>
   get_current_preset
     (climate_init no_rooms_cube
        (all_on_thermostat\<lparr>mode := Some MAX_DEVICE_MODE_AUTOMATIC\<rparr>)) = None \<and>
   get_current_preset (climate_init no_rooms_cube all_on_thermostat) =
     get_current_preset
       (climate_init no_rooms_cube (all_on_thermostat\<lparr>serial := ''KEQ0000002''\<rparr>))"
  using
    current_preset_priority
      [of "climate_init no_rooms_cube all_on_thermostat"
          "climate_init no_rooms_cube (all_on_thermostat\<lparr>serial := ''KEQ0000002''\<rparr>)"]
    current_preset_priority
      [of "climate_init no_rooms_cube eco_on_thermostat"
          "climate_init no_rooms_cube eco_on_thermostat"]
    current_preset_priority
      [of "climate_init no_rooms_cube
             (factory_thermostat\<lparr>target_temperature := Some (61 / 2)\<rparr>)"
          "climate_init no_rooms_cube
             (factory_thermostat\<lparr>target_temperature := Some (61 / 2)\<rparr>)"]
    current_preset_priority
      [of "climate_init no_rooms_cube (factory_thermostat\<lparr>target_temperature := Some 19\<rparr>)"
          "climate_init no_rooms_cube (factory_thermostat\<lparr>target_temperature := Some 19\<rparr>)"]
    current_preset_priority
      [of "climate_init no_rooms_cube
             (all_on_thermostat\<lparr>mode := Some MAX_DEVICE_MODE_BOOST\<rparr>)"
          "climate_init no_rooms_cube
             (all_on_thermostat\<lparr>mode := Some MAX_DEVICE_MODE_BOOST\<rparr>)"]
    current_preset_priority
      [of "climate_init no_rooms_cube
             (all_on_thermostat\<lparr>mode := Some MAX_DEVICE_MODE_VACATION\<rparr>)"
          "climate_init no_rooms_cube
             (all_on_thermostat\<lparr>mode := Some MAX_DEVICE_MODE_VACATION\<rparr>)"]
    current_preset_priority
      [of "climate_init no_rooms_cube
             (all_on_thermostat\<lparr>mode := Some MAX_DEVICE_MODE_AUTOMATIC\<rparr>)"
          "climate_init no_rooms_cube
             (all_on_thermostat\<lparr>mode := Some MAX_DEVICE_MODE_AUTOMATIC\<rparr>)"]
  by (simp add: device_climate_init all_on_thermostat_def eco_on_thermostat_def
      factory_thermostat_def ON_TEMPERATURE_def get_current_preset_def Let_def)

section \<open>The binary sensors\<close>

text \<open>
  Claim C10. \<^verbatim>\<open>is_on\<close> of a binary sensor is \<^verbatim>\<open>None\<close> when the device has no attribute
  for it. Otherwise the battery sensor is on exactly when \<^verbatim>\<open>device.battery\<close> equals 1
  (0 and \<^verbatim>\<open>None\<close> give \<^verbatim>\<open>False\<close>), and the window sensor returns the device's \<^verbatim>\<open>is_open\<close>
  as it is.
\<close>

theorem binary_sensor_is_on:
  "(is_open (sensor_device s) = Absent \<longrightarrow> shutter_is_on s = None) \<and>
   (\<forall>v. is_open (sensor_device s) = Present v \<longrightarrow> shutter_is_on s = v) \<and>
   (battery (sensor_device s) = Absent \<longrightarrow> battery_is_on s = None) \<and>
   (\<forall>b. battery (sensor_device s) = Present b \<longrightarrow> battery_is_on s = Some (b = Some 1)) \<and>
   (battery (sensor_device s) = Present (Some 1) \<longrightarrow> battery_is_on s = Some True) \<and>
   (battery (sensor_device s) = Present (Some 0) \<longrightarrow> battery_is_on s = Some False) \<and>
   (battery (sensor_device s) = Present None \<longrightarrow> battery_is_on s = Some False)"
  by (simp add: shutter_is_on_def battery_is_on_def)

text \<open>
  Claim C10, witness: a window shutter that is open and whose battery is low, the same
  with battery values 0 and \<^verbatim>\<open>None\<close> and without the attribute, and a thermostat, which
  has no \<^verbatim>\<open>is_open\<close>.
\<close>

theorem binary_sensor_is_on_witness:
  "shutter_is_on \<lparr>sensor_device = shutter_device, sensor_unique_id = ''w''\<rparr> = Some True \<and>
   battery_is_on \<lparr>sensor_device = shutter_device, sensor_unique_id = ''b''\<rparr> = Some True \<and>
   battery_is_on
     \<lparr>sensor_device = shutter_device\<lparr>battery := Present (Some 0)\<rparr>,
      sensor_unique_id = ''b''\<rparr> = Some False \<and>
   battery_is_on
     \<lparr>sensor_device = shutter_device\<lparr>battery := Present None\<rparr>,
      sensor_unique_id = ''b''\<rparr> = Some False \<and>
   battery_is_on
     \<lparr>sensor_device = shutter_device\<lparr>battery := Absent\<rparr>,
      sensor_unique_id = ''b''\<rparr> = None \<and>
   shutter_is_on \<lparr>sensor_device = factory_thermostat, sensor_unique_id = ''w''\<rparr> = None"
  using
    binary_sensor_is_on [of "\<lparr>sensor_device = shutter_device, sensor_unique_id = ''w''\<rparr>"]
    binary_sensor_is_on [of "\<lparr>sensor_device = shutter_device, sensor_unique_id = ''b''\<rparr>"]
    binary_sensor_is_on
      [of "\<lparr>sensor_device = shutter_device\<lparr>battery := Present (Some 0)\<rparr>,
           sensor_unique_id = ''b''\<rparr>"]
    binary_sensor_is_on
      [of "\<lparr>sensor_device = shutter_device\<lparr>battery := Present None\<rparr>,
           sensor_unique_id = ''b''\<rparr>"]
    binary_sensor_is_on
      [of "\<lparr>sensor_device = shutter_device\<lparr>battery := Absent\<rparr>,
           sensor_unique_id = ''b''\<rparr>"]
    binary_sensor_is_on
      [of "\<lparr>sensor_device = factory_thermostat, sensor_unique_id = ''w''\<rparr>"]
  by (simp add: shutter_device_def factory_thermostat_def)

end
